theory Spec2Isabelle
  imports Main
begin

section \<open>Channel management of the bot: the model\<close>

text \<open>
  The component \<open>ChannelManagement\<close> of \<open>ext/management.py\<close> keeps the game and the
  title it last saw, the times at which the bot's own commands changed them, and a table
  of past titles. Its handlers are coroutines that read the clock at most once, call the
  outside world (the platform's API, the chat, the database pool) and write the component's
  fields. Here a handler is a function of the clock value it reads, the component and
  the outside world; it returns how it ended, the component and the world it leaves.
  An awaited call that raises ends the handler at that point: the writes made before it
  stay, as in Python, and nothing after it runs.
\<close>

subsection \<open>Time\<close>

text \<open>
  A \<open>datetime\<close> (always in UTC here) is its number of microseconds since the epoch and
  a \<open>timedelta\<close> a number of microseconds, both exact integers as in Python. Python
  keeps a \<open>timedelta\<close> normalised as days, seconds (0 to 86399) and microseconds
  (0 to 999999); the attribute \<open>.seconds\<close> is the middle component, not the length
  of the interval in seconds. The range limits of the two Python types are left out.
\<close>

type_synonym datetime = int
type_synonym timedelta = int

definition timedelta_hours :: "int \<Rightarrow> timedelta" where
  "timedelta_hours h = h * 3600000000"

definition timedelta_days :: "int \<Rightarrow> timedelta" where
  "timedelta_days d = d * 86400000000"

definition seconds :: "timedelta \<Rightarrow> int" where
  "seconds d = (d div 1000000) mod 86400"

subsection \<open>Strings\<close>

text \<open>
  \<open>str.lower\<close> on the letters A to Z. The only use is the comparison of the lowered
  argument with \<open>clear\<close>; no character outside A to Z lowers to one of c, l, e, a, r,
  so leaving the other characters alone decides that comparison as Python does.
\<close>

definition lower_char :: "char \<Rightarrow> char" where
  "lower_char ch =
     (case map_of (zip ''ABCDEFGHIJKLMNOPQRSTUVWXYZ'' ''abcdefghijklmnopqrstuvwxyz'') ch of
        None \<Rightarrow> ch
      | Some l \<Rightarrow> l)"

definition lower :: "string \<Rightarrow> string" where
  "lower s = map lower_char s"

subsection \<open>Data\<close>

text \<open>The fields of \<open>ChannelManagement\<close> set in \<open>__init__\<close>.\<close>

record component =
  game_tracked :: string
  title_tracked :: string
  game_updated_dt :: datetime
  title_updated_dt :: datetime

text \<open>The payload of a channel update event, a game as the search returns it, and
  the channel information as the platform returns it.\<close>

record channel_update_payload =
  category_name :: string
  title :: string

record game_found =
  game_id :: string
  game_name :: string

record channel_info =
  info_game_name :: string
  info_title :: string

datatype chat_line = CtxSend string | SendMessage string string

datatype error =
  SendFailed | ModifyFailed | FetchFailed | SearchFailed | DatabaseFailed | DataError

datatype outcome = Returned | Raised error

text \<open>
  The outside world: the channel on the platform, the chat, the table
  \<open>ttv_stream_titles\<close> (rows of title and edit time; \<open>ON CONFLICT (title)\<close> needs the
  titles unique) and the list of the searches made so far.
\<close>

record world =
  channel_game_id :: string
  channel_title :: string
  chat :: "chat_line list"
  ttv_stream_titles :: "(string \<times> datetime) list"
  fetch_games_calls :: "string list list"

text \<open>
  What the source takes from outside \<open>ext/management.py\<close>, as parameters: the emote and
  user id constants of \<open>utils.const\<close>, \<open>formats.ordinal\<close>, what the platform answers
  to a search and which name a category id has, and whether a collaborator's call raises.
\<close>

record env =
  STV_DankDolmes :: string
  FFZ_peepoPolice :: string
  STV_uuh :: string
  STV_How2Read :: string
  STV_DankMods :: string
  STV_donkHappy :: string
  STV_donkDetective :: string
  STV_DankThink :: string
  UserID_Bot :: string
  ordinal :: "int \<Rightarrow> string"
  games_named :: "string list \<Rightarrow> game_found list"
  category_names :: "string \<Rightarrow> string"
  chat_fault :: bool
  modify_fault :: bool
  fetch_info_fault :: bool
  fetch_games_fault :: bool
  pool_fault :: bool

subsection \<open>The collaborators\<close>

definition ctx_send :: "env \<Rightarrow> string \<Rightarrow> world \<Rightarrow> error + world" where
  "ctx_send ev text w =
     (if chat_fault ev then Inl SendFailed else Inr (w\<lparr>chat := chat w @ [CtxSend text]\<rparr>))"

definition send_message :: "env \<Rightarrow> string \<Rightarrow> string \<Rightarrow> world \<Rightarrow> error + world" where
  "send_message ev sender text w =
     (if chat_fault ev then Inl SendFailed
      else Inr (w\<lparr>chat := chat w @ [SendMessage sender text]\<rparr>))"

definition fetch_channel_info :: "env \<Rightarrow> world \<Rightarrow> error + channel_info" where
  "fetch_channel_info ev w =
     (if fetch_info_fault ev then Inl FetchFailed
      else Inr \<lparr>info_game_name = category_names ev (channel_game_id w),
                info_title = channel_title w\<rparr>)"

definition modify_channel_game_id :: "env \<Rightarrow> string \<Rightarrow> world \<Rightarrow> error + world" where
  "modify_channel_game_id ev gid w =
     (if modify_fault ev then Inl ModifyFailed else Inr (w\<lparr>channel_game_id := gid\<rparr>))"

definition modify_channel_title :: "env \<Rightarrow> string \<Rightarrow> world \<Rightarrow> error + world" where
  "modify_channel_title ev t w =
     (if modify_fault ev then Inl ModifyFailed else Inr (w\<lparr>channel_title := t\<rparr>))"

definition fetch_games :: "env \<Rightarrow> string list \<Rightarrow> world \<Rightarrow> (error + game_found list) \<times> world" where
  "fetch_games ev names w =
     (let w1 = w\<lparr>fetch_games_calls := fetch_games_calls w @ [names]\<rparr>
      in if fetch_games_fault ev then (Inl SearchFailed, w1) else (Inr (games_named ev names), w1))"

text \<open>
  The three statements on \<open>ttv_stream_titles\<close>. \<open>ORDER BY edit_time DESC\<close> is a
  stable sort of the stored rows: SQL leaves the order of rows with equal edit times
  open, and the facts proved about the order below do not depend on it. The pool sends
  the argument of \<open>OFFSET\<close> as a 64-bit integer: an offset outside that range is
  refused by the pool with a \<open>DataError\<close> and the statement is not run. A negative
  \<open>OFFSET\<close> is an error of the database.
\<close>

fun upsert :: "string \<Rightarrow> datetime \<Rightarrow> (string \<times> datetime) list \<Rightarrow> (string \<times> datetime) list" where
  "upsert t e [] = [(t, e)]"
| "upsert t e ((t', e') # rows) = (if t' = t then (t', e) # rows else (t', e') # upsert t e rows)"

definition order_by_edit_time_desc :: "(string \<times> datetime) list \<Rightarrow> (string \<times> datetime) list" where
  "order_by_edit_time_desc rows = sort_key (\<lambda>r. - snd r) rows"

definition select_title :: "int \<Rightarrow> (string \<times> datetime) list \<Rightarrow> string option" where
  "select_title offset rows =
     (case take 1 (drop (nat offset) (order_by_edit_time_desc rows)) of
        [] \<Rightarrow> None
      | r # _ \<Rightarrow> Some (fst r))"

definition delete_older :: "datetime \<Rightarrow> (string \<times> datetime) list \<Rightarrow> (string \<times> datetime) list" where
  "delete_older cutoff rows = filter (\<lambda>r. \<not> snd r < cutoff) rows"

definition pool_execute_upsert :: "env \<Rightarrow> string \<Rightarrow> datetime \<Rightarrow> world \<Rightarrow> error + world" where
  "pool_execute_upsert ev t e w =
     (if pool_fault ev then Inl DatabaseFailed
      else Inr (w\<lparr>ttv_stream_titles := upsert t e (ttv_stream_titles w)\<rparr>))"

definition pool_fetchval :: "env \<Rightarrow> int \<Rightarrow> world \<Rightarrow> error + string option" where
  "pool_fetchval ev offset w =
     (if pool_fault ev then Inl DatabaseFailed
      else if offset < - 9223372036854775808 \<or> 9223372036854775807 < offset then Inl DataError
      else if offset < 0 then Inl DatabaseFailed
      else Inr (select_title offset (ttv_stream_titles w)))"

definition pool_execute_delete :: "env \<Rightarrow> datetime \<Rightarrow> world \<Rightarrow> error + world" where
  "pool_execute_delete ev cutoff w =
     (if pool_fault ev then Inl DatabaseFailed
      else Inr (w\<lparr>ttv_stream_titles := delete_older cutoff (ttv_stream_titles w)\<rparr>))"

subsection \<open>The handlers\<close>

text \<open>\<open>__init__\<close> reads the clock twice, once for each of the two times.\<close>

definition init :: "datetime \<Rightarrow> datetime \<Rightarrow> component" where
  "init now1 now2 =
     \<lparr>game_tracked = ''idk'', title_tracked = ''idk'',
      game_updated_dt = now1 - timedelta_hours 1,
      title_updated_dt = now2 - timedelta_hours 1\<rparr>"

definition start_tracking :: "env \<Rightarrow> component \<Rightarrow> world \<Rightarrow> outcome \<times> component \<times> world" where
  "start_tracking ev c w =
     (case fetch_channel_info ev w of
        Inl e \<Rightarrow> (Raised e, c, w)
      | Inr info \<Rightarrow>
          (Returned, c\<lparr>game_tracked := info_game_name info, title_tracked := info_title info\<rparr>, w))"

text \<open>\<open>await ctx.send(text)\<close> as the last statement of a handler.\<close>

definition reply :: "env \<Rightarrow> string \<Rightarrow> component \<Rightarrow> world \<Rightarrow> outcome \<times> component \<times> world" where
  "reply ev text c w =
     (case ctx_send ev text w of Inl e \<Rightarrow> (Raised e, c, w) | Inr w1 \<Rightarrow> (Returned, c, w1))"

definition game_keywords_get :: "string \<Rightarrow> string" where
  "game_keywords_get key =
     (case map_of [(''dota'', ''Dota 2''), (''er'', ''Elden Ring'')] key of
        None \<Rightarrow> key
      | Some full \<Rightarrow> full)"

text \<open>Branch 1 of \<open>game\<close>: no argument (\<open>None\<close> or the empty string).\<close>

definition game_show :: "env \<Rightarrow> component \<Rightarrow> world \<Rightarrow> outcome \<times> component \<times> world" where
  "game_show ev c w =
     (case fetch_channel_info ev w of
        Inl e \<Rightarrow> (Raised e, c, w)
      | Inr info \<Rightarrow>
          reply ev
            ((if info_game_name info = [] then ''No game category'' else info_game_name info)
               @ '' '' @ STV_DankDolmes ev) c w)"

definition game ::
  "env \<Rightarrow> bool \<Rightarrow> string option \<Rightarrow> datetime \<Rightarrow> component \<Rightarrow> world \<Rightarrow> outcome \<times> component \<times> world" where
  \<open>game ev moderator arg now c w =
     (case arg of
        None \<Rightarrow> game_show ev c w
      | Some name \<Rightarrow>
          if name = [] then game_show ev c w
          else if \<not> moderator then
            reply ev (''Only moderators are allowed to change game name '' @ FFZ_peepoPolice ev) c w
          else if lower name = ''clear'' then
            (let c1 = c\<lparr>game_updated_dt := now\<rparr> in
             case modify_channel_game_id ev ''0'' w of
               Inl e \<Rightarrow> (Raised e, c1, w)
             | Inr w1 \<Rightarrow> reply ev (''Set game to "No game category" '' @ STV_uuh ev) c1 w1)
          else
            (case fetch_games ev [game_keywords_get name] w of
               (Inl e, w1) \<Rightarrow> (Raised e, c, w1)
             | (Inr [], w1) \<Rightarrow>
                 reply ev (''Couldn't find any games with such a name '' @ STV_How2Read ev) c w1
             | (Inr (g # _), w1) \<Rightarrow>
                 (let c1 = c\<lparr>game_updated_dt := now\<rparr> in
                  case modify_channel_game_id ev (game_id g) w1 of
                    Inl e \<Rightarrow> (Raised e, c1, w1)
                  | Inr w2 \<Rightarrow>
                      reply ev (''Changed game to "'' @ game_name g @ ''" '' @ STV_DankMods ev) c1 w2)))\<close>

definition update_title ::
  "env \<Rightarrow> string \<Rightarrow> datetime \<Rightarrow> component \<Rightarrow> world \<Rightarrow> outcome \<times> component \<times> world" where
  "update_title ev t now c w =
     (let c1 = c\<lparr>title_updated_dt := now\<rparr> in
      case modify_channel_title ev t w of
        Inl e \<Rightarrow> (Raised e, c1, w)
      | Inr w1 \<Rightarrow> (Returned, c1, w1))"

definition title_group ::
  "env \<Rightarrow> bool \<Rightarrow> string \<Rightarrow> datetime \<Rightarrow> component \<Rightarrow> world \<Rightarrow> outcome \<times> component \<times> world" where
  \<open>title_group ev moderator t now c w =
     (if t = [] then
        (case fetch_channel_info ev w of
           Inl e \<Rightarrow> (Raised e, c, w)
         | Inr info \<Rightarrow> reply ev (info_title info) c w)
      else if \<not> moderator then
        reply ev (''Only moderators are allowed to change title '' @ FFZ_peepoPolice ev) c w
      else
        (case update_title ev t now c w of
           (Raised e, c1, w1) \<Rightarrow> (Raised e, c1, w1)
         | (Returned, c1, w1) \<Rightarrow>
             reply ev (STV_donkHappy ev @ '' Changed title to "'' @ t @ ''"'') c1 w1))\<close>

text \<open>
  \<open>title_set\<close> and \<open>title_restore\<close> stand behind the framework's guard
  \<open>commands.is_moderator()\<close>, which is not part of this file: the definitions are the
  bodies, which run once the guard has let the caller through.
\<close>

definition title_set ::
  "env \<Rightarrow> string \<Rightarrow> datetime \<Rightarrow> component \<Rightarrow> world \<Rightarrow> outcome \<times> component \<times> world" where
  \<open>title_set ev t now c w =
     (case update_title ev t now c w of
        (Raised e, c1, w1) \<Rightarrow> (Raised e, c1, w1)
      | (Returned, c1, w1) \<Rightarrow>
          reply ev (STV_donkHappy ev @ '' Set title to "'' @ t @ ''"'') c1 w1)\<close>

definition title_restore ::
  "env \<Rightarrow> int \<Rightarrow> datetime \<Rightarrow> component \<Rightarrow> world \<Rightarrow> outcome \<times> component \<times> world" where
  "title_restore ev offset now c w =
     (case pool_fetchval ev offset w of
        Inl e \<Rightarrow> (Raised e, c, w)
      | Inr None \<Rightarrow> reply ev ''No change: the database doesn't keep such title.'' c w
      | Inr (Some t) \<Rightarrow>
          (case update_title ev t now c w of
             (Raised e, c1, w1) \<Rightarrow> (Raised e, c1, w1)
           | (Returned, c1, w1) \<Rightarrow>
               reply ev (''Set the title to '' @ ordinal ev offset @ '' in history: '' @ t) c1 w1))"

definition channel_update ::
  "env \<Rightarrow> channel_update_payload \<Rightarrow> datetime \<Rightarrow> component \<Rightarrow> world \<Rightarrow> outcome \<times> component \<times> world" where
  \<open>channel_update ev update now c w =
     (case (if game_tracked c \<noteq> category_name update \<and> seconds (now - game_updated_dt c) > 15
            then send_message ev (UserID_Bot ev)
                   (STV_donkDetective ev @ '' Game was changed to "'' @ category_name update @ ''"'') w
            else Inr w) of
        Inl e \<Rightarrow> (Raised e, c, w)
      | Inr w1 \<Rightarrow>
          (case (if title_tracked c \<noteq> title update \<and> seconds (now - title_updated_dt c) > 15
                 then send_message ev (UserID_Bot ev)
                        (STV_DankThink ev @ '' Title was changed to "'' @ title update @ ''"'') w1
                 else Inr w1) of
             Inl e \<Rightarrow> (Raised e, c, w1)
           | Inr w2 \<Rightarrow>
               (case (if title_tracked c \<noteq> title update
                      then pool_execute_upsert ev (title update) now w2
                      else Inr w2) of
                  Inl e \<Rightarrow> (Raised e, c, w2)
                | Inr w3 \<Rightarrow>
                    (Returned,
                     c\<lparr>game_tracked := category_name update, title_tracked := title update\<rparr>,
                     w3))))\<close>

definition clear_the_database ::
  "env \<Rightarrow> datetime \<Rightarrow> component \<Rightarrow> world \<Rightarrow> outcome \<times> component \<times> world" where
  "clear_the_database ev now c w =
     (let cutoff_dt = now - timedelta_days 30 in
      case pool_execute_delete ev cutoff_dt w of
        Inl e \<Rightarrow> (Raised e, c, w)
      | Inr w1 \<Rightarrow> (Returned, c, w1))"

subsection \<open>A concrete environment, world and component\<close>

text \<open>
  Values on which the theorems below are run: the emotes under their own names, a
  platform that knows two games, a table of four titles, all collaborators up.
\<close>

definition example_env :: env where
  "example_env =
     \<lparr>STV_DankDolmes = ''DankDolmes'', FFZ_peepoPolice = ''peepoPolice'', STV_uuh = ''uuh'',
      STV_How2Read = ''How2Read'', STV_DankMods = ''DankMods'', STV_donkHappy = ''donkHappy'',
      STV_donkDetective = ''donkDetective'', STV_DankThink = ''DankThink'', UserID_Bot = ''bot'',
      ordinal = (\<lambda>n. if n = 1 then ''1st'' else if n = 2 then ''2nd''
                     else if n = 3 then ''3rd'' else ''nth''),
      games_named = (\<lambda>names.
         if names = [''Dota 2''] then [\<lparr>game_id = ''29595'', game_name = ''Dota 2''\<rparr>]
         else if names = [''Elden Ring''] then [\<lparr>game_id = ''512953'', game_name = ''Elden Ring''\<rparr>]
         else []),
      category_names = (\<lambda>i. if i = ''29595'' then ''Dota 2''
                            else if i = ''512953'' then ''Elden Ring'' else []),
      chat_fault = False, modify_fault = False, fetch_info_fault = False,
      fetch_games_fault = False, pool_fault = False\<rparr>"

definition example_world :: world where
  "example_world =
     \<lparr>channel_game_id = ''29595'', channel_title = ''Now'', chat = [],
      ttv_stream_titles =
        [(''Chatting'', 2000), (''Dota 2 grind'', 1000), (''Elden Ring Hype'', 3000), (''Now'', 4000)],
      fetch_games_calls = []\<rparr>"

definition example_component :: component where
  "example_component =
     \<lparr>game_tracked = ''Dota 2'', title_tracked = ''Now'',
      game_updated_dt = 0, title_updated_dt = 0\<rparr>"

section \<open>Facts shared by the handlers\<close>

lemmas collab_defs = ctx_send_def send_message_def fetch_channel_info_def
  modify_channel_game_id_def modify_channel_title_def fetch_games_def pool_execute_upsert_def
  pool_fetchval_def pool_execute_delete_def reply_def

text \<open>
  What a channel update event does when the chat and the pool are up: the two
  announcements, each under its own test, the write to the title history, and nothing
  else of the world.
\<close>

lemma channel_update_game_branch:
  assumes "\<not> chat_fault ev" "\<not> pool_fault ev"
  shows "\<exists>w'. channel_update ev update now c w =
           (Returned, c\<lparr>game_tracked := category_name update, title_tracked := title update\<rparr>, w')
         \<and> chat w' = chat w
             @ (if game_tracked c \<noteq> category_name update \<and> 15 < seconds (now - game_updated_dt c)
                then [SendMessage (UserID_Bot ev)
                        (STV_donkDetective ev @ '' Game was changed to \"'' @ category_name update @ ''\"'')]
                else [])
             @ (if title_tracked c \<noteq> title update \<and> 15 < seconds (now - title_updated_dt c)
                then [SendMessage (UserID_Bot ev)
                        (STV_DankThink ev @ '' Title was changed to \"'' @ title update @ ''\"'')]
                else [])
         \<and> ttv_stream_titles w' =
              (if title_tracked c \<noteq> title update then upsert (title update) now (ttv_stream_titles w)
               else ttv_stream_titles w)
         \<and> channel_game_id w' = channel_game_id w \<and> channel_title w' = channel_title w
         \<and> fetch_games_calls w' = fetch_games_calls w"
  using assms by (simp add: channel_update_def collab_defs)

lemma game_found_branch:
  assumes "name \<noteq> []" "lower name \<noteq> ''clear''"
    and "games_named ev [game_keywords_get name] = g # gs"
    and "\<not> fetch_games_fault ev" "\<not> modify_fault ev" "\<not> chat_fault ev"
  shows "game ev True (Some name) now c w =
           (Returned, c\<lparr>game_updated_dt := now\<rparr>,
            w\<lparr>fetch_games_calls := fetch_games_calls w @ [[game_keywords_get name]],
              channel_game_id := game_id g,
              chat := chat w @ [CtxSend (''Changed game to \"'' @ game_name g @ ''\" '' @ STV_DankMods ev)]\<rparr>)"
  using assms by (simp add: game_def collab_defs Let_def)

lemma update_title_eq:
  "update_title ev t now c w =
     (if modify_fault ev then (Raised ModifyFailed, c\<lparr>title_updated_dt := now\<rparr>, w)
      else (Returned, c\<lparr>title_updated_dt := now\<rparr>, w\<lparr>channel_title := t\<rparr>))"
  by (simp add: update_title_def collab_defs Let_def)

text \<open>
  The attribute \<open>.seconds\<close> on an interval of at most fifteen seconds, and on one of
  at least sixteen seconds and less than a day.
\<close>

lemma seconds_in_window:
  assumes "0 \<le> d" "d \<le> 15000000"
  shows "seconds d \<le> 15"
proof -
  have lo: "0 \<le> d div 1000000" using assms(1) by (simp add: pos_imp_zdiv_nonneg_iff)
  have "d div 1000000 \<le> 15000000 div 1000000" using assms(2) by (rule zdiv_mono1) simp
  then have hi: "d div 1000000 \<le> 15" by simp
  from lo hi have "(d div 1000000) mod 86400 = d div 1000000" by simp
  with hi show ?thesis by (simp add: seconds_def)
qed

lemma seconds_past_window:
  assumes "16000000 \<le> d" "d < 86400000000"
  shows "15 < seconds d"
proof -
  have "16000000 div 1000000 \<le> d div 1000000" using assms(1) by (rule zdiv_mono1) simp
  then have lo: "16 \<le> d div 1000000" by simp
  have "d div 1000000 \<le> 86399999999 div 1000000" using assms(2) by (intro zdiv_mono1) simp_all
  then have hi: "d div 1000000 < 86400" by simp
  from lo hi have "(d div 1000000) mod 86400 = d div 1000000" by simp
  with lo show ?thesis by (simp add: seconds_def)
qed

text \<open>Lowering the letters of \<open>clear\<close>, in either case.\<close>

lemma lower_char_clear:
  "lower_char (CHR ''c'') = CHR ''c''" "lower_char (CHR ''C'') = CHR ''c''"
  "lower_char (CHR ''l'') = CHR ''l''" "lower_char (CHR ''L'') = CHR ''l''"
  "lower_char (CHR ''e'') = CHR ''e''" "lower_char (CHR ''E'') = CHR ''e''"
  "lower_char (CHR ''a'') = CHR ''a''" "lower_char (CHR ''A'') = CHR ''a''"
  "lower_char (CHR ''r'') = CHR ''r''" "lower_char (CHR ''R'') = CHR ''r''"
  by (simp_all add: lower_char_def)

section \<open>Announcing a game change made outside the bot\<close>

text \<open>
  An event that reports another game than the tracked one is announced, once, when the
  bot's last game change lies at least sixteen seconds and less than a day back.
\<close>

lemma external_game_change_is_announced:
  assumes "game_tracked c \<noteq> category_name update"
    and "game_updated_dt c + 16000000 \<le> now" and "now < game_updated_dt c + 86400000000"
    and "title_tracked c = title update"
    and "\<not> chat_fault ev" and "\<not> pool_fault ev"
  shows "channel_update ev update now c w =
           (Returned, c\<lparr>game_tracked := category_name update, title_tracked := title update\<rparr>,
            w\<lparr>chat := chat w @
               [SendMessage (UserID_Bot ev)
                  (STV_donkDetective ev @ '' Game was changed to \"'' @ category_name update @ ''\"'')]\<rparr>)"
proof -
  have "15 < seconds (now - game_updated_dt c)"
    using assms(2,3) by (intro seconds_past_window) simp_all
  with assms show ?thesis by (simp add: channel_update_def collab_defs)
qed

text \<open>
  Adding a day to an interval leaves its \<open>.seconds\<close> as it is, so an event that
  reports another game a day and less than sixteen seconds after the game time passes
  without an announcement, as the echo of a command does.
\<close>

lemma seconds_wraps_daily: "seconds (d + 86400000000) = seconds d"
proof -
  have "(d + 86400000000) div 1000000 = d div 1000000 + 86400"
    by simp
  then show ?thesis by (simp add: seconds_def)
qed

lemma stale_stamp_is_silent:
  assumes "game_updated_dt c \<le> t" and "t < game_updated_dt c + 16000000"
    and "title_tracked c = title update"
  shows "channel_update ev update (t + 86400000000) c w =
           (Returned, c\<lparr>game_tracked := category_name update, title_tracked := title update\<rparr>, w)"
proof -
  have "0 \<le> (t - game_updated_dt c) div 1000000"
    using assms(1) by (simp add: pos_imp_zdiv_nonneg_iff)
  moreover have "(t - game_updated_dt c) div 1000000 \<le> 15999999 div 1000000"
    using assms(2) by (intro zdiv_mono1) simp_all
  ultimately have "seconds (t - game_updated_dt c) \<le> 15"
    by (simp add: seconds_def)
  moreover have "t + 86400000000 - game_updated_dt c = (t - game_updated_dt c) + 86400000000"
    by simp
  ultimately have "\<not> 15 < seconds (t + 86400000000 - game_updated_dt c)"
    by (simp only: seconds_wraps_daily)
  with assms(3) show ?thesis by (simp add: channel_update_def)
qed

text \<open>
  Claim C1. The claim: an event reporting game b, while game a is tracked, with no
  game change by the bot before it or more than fifteen seconds after one, posts exactly
  one announcement naming b. The handler compares the \<open>.seconds\<close> component of the
  elapsed time with 15, not the elapsed time. A tracker built at some time, whose game
  time is the hour-old value of \<open>__init__\<close> and which no command ever touched, gets an
  event 23 hours and 5 seconds later that reports Elden Ring for the tracked Dota 2: the
  elapsed time is one day and 5 seconds, its \<open>.seconds\<close> is 5, and the handler returns
  with nothing posted to the chat. So does it for an event fifteen and a half seconds
  after the game time.
\<close>

theorem day_old_stamp_suppresses_announcement:
  "start_tracking example_env (init 1700000000000000 1700000000000000) example_world =
     (Returned,
      \<lparr>game_tracked = ''Dota 2'', title_tracked = ''Now'',
       game_updated_dt = 1699996400000000, title_updated_dt = 1699996400000000\<rparr>,
      example_world)
   \<and> channel_update example_env \<lparr>category_name = ''Elden Ring'', title = ''Now''\<rparr>
       1700082805000000
       \<lparr>game_tracked = ''Dota 2'', title_tracked = ''Now'',
        game_updated_dt = 1699996400000000, title_updated_dt = 1699996400000000\<rparr>
       example_world =
     (Returned,
      \<lparr>game_tracked = ''Elden Ring'', title_tracked = ''Now'',
       game_updated_dt = 1699996400000000, title_updated_dt = 1699996400000000\<rparr>,
      example_world)
   \<and> channel_update example_env \<lparr>category_name = ''Elden Ring'', title = ''Now''\<rparr>
       15500000 example_component example_world =
     (Returned, example_component\<lparr>game_tracked := ''Elden Ring''\<rparr>, example_world)"
  by (simp add: start_tracking_def init_def timedelta_hours_def channel_update_def seconds_def
        collab_defs example_env_def example_world_def example_component_def)

section \<open>The echo of the bot's own game change\<close>

text \<open>
  Claim C2. Game a is tracked and a moderator's \<open>game\<close> command, run at \<open>t0\<close>, finds
  the game b and sets it. An event reporting b that is handled at most fifteen seconds
  after \<open>t0\<close> posts no game announcement: the chat gets at most the announcement of a
  title change, when the event also carries another title than the tracked one, and an
  event with the tracked title leaves the world as it was. The tracked game is b after
  the event.
\<close>

theorem bot_game_change_echo_is_silent:
  assumes "a \<noteq> b" and "game_tracked c = a" and "category_name update = b"
    and "name \<noteq> []" and "lower name \<noteq> ''clear''"
    and "games_named ev [game_keywords_get name] = g # gs" and "game_name g = b"
    and "\<not> fetch_games_fault ev" and "\<not> modify_fault ev" and "\<not> chat_fault ev"
    and "\<not> pool_fault ev"
    and "t0 \<le> now" and "now \<le> t0 + 15000000"
  shows "\<exists>c1 w1 c2 w2.
           game ev True (Some name) t0 c w = (Returned, c1, w1)
         \<and> channel_game_id w1 = game_id g
         \<and> channel_update ev update now c1 w1 = (Returned, c2, w2)
         \<and> game_tracked c2 = b
         \<and> chat w2 = chat w1
             @ (if title_tracked c \<noteq> title update \<and> 15 < seconds (now - title_updated_dt c)
                then [SendMessage (UserID_Bot ev)
                        (STV_DankThink ev @ '' Title was changed to \"'' @ title update @ ''\"'')]
                else [])
         \<and> (title update = title_tracked c \<longrightarrow> w2 = w1)"
proof -
  let ?c1 = "c\<lparr>game_updated_dt := t0\<rparr>"
  let ?w1 = "w\<lparr>fetch_games_calls := fetch_games_calls w @ [[game_keywords_get name]],
              channel_game_id := game_id g,
              chat := chat w @ [CtxSend (''Changed game to \"'' @ game_name g @ ''\" '' @ STV_DankMods ev)]\<rparr>"
  have cmd: "game ev True (Some name) t0 c w = (Returned, ?c1, ?w1)"
    using assms by (intro game_found_branch) simp_all
  have quiet: "\<not> 15 < seconds (now - game_updated_dt ?c1)"
    using seconds_in_window [of "now - t0"] assms(12,13) by simp
  obtain w2 where ev: "channel_update ev update now ?c1 ?w1 =
           (Returned, ?c1\<lparr>game_tracked := category_name update, title_tracked := title update\<rparr>, w2)"
    and ch: "chat w2 = chat ?w1
             @ (if game_tracked ?c1 \<noteq> category_name update \<and> 15 < seconds (now - game_updated_dt ?c1)
                then [SendMessage (UserID_Bot ev)
                        (STV_donkDetective ev @ '' Game was changed to \"'' @ category_name update @ ''\"'')]
                else [])
             @ (if title_tracked ?c1 \<noteq> title update \<and> 15 < seconds (now - title_updated_dt ?c1)
                then [SendMessage (UserID_Bot ev)
                        (STV_DankThink ev @ '' Title was changed to \"'' @ title update @ ''\"'')]
                else [])"
    using channel_update_game_branch [OF assms(10,11), of update now ?c1 ?w1] by blast
  have same: "w2 = ?w1" if "title update = title_tracked c"
    using that quiet ev by (simp add: channel_update_def collab_defs)
  from quiet ch have ch': "chat w2 = chat ?w1
             @ (if title_tracked c \<noteq> title update \<and> 15 < seconds (now - title_updated_dt c)
                then [SendMessage (UserID_Bot ev)
                        (STV_DankThink ev @ '' Title was changed to \"'' @ title update @ ''\"'')]
                else [])" by simp
  show ?thesis
    apply (rule exI [of _ ?c1], rule exI [of _ ?w1])
    apply (rule exI [of _ "?c1\<lparr>game_tracked := category_name update, title_tracked := title update\<rparr>"])
    apply (rule exI [of _ w2])
    using cmd ev ch' same assms(3) by simp
qed

theorem bot_game_change_echo_is_silent_witness:
  "''Dota 2'' \<noteq> ''Elden Ring'' \<and> game_tracked example_component = ''Dota 2''
   \<and> ''er'' \<noteq> [] \<and> lower ''er'' \<noteq> ''clear''
   \<and> games_named example_env [game_keywords_get ''er''] =
        [\<lparr>game_id = ''512953'', game_name = ''Elden Ring''\<rparr>]
   \<and> \<not> fetch_games_fault example_env \<and> \<not> modify_fault example_env
   \<and> \<not> chat_fault example_env \<and> \<not> pool_fault example_env
   \<and> (1000000 :: int) \<le> 10000000 \<and> (10000000 :: int) \<le> 1000000 + 15000000
   \<and> (\<exists>c1 w1 c2.
         game example_env True (Some ''er'') 1000000 example_component example_world = (Returned, c1, w1)
       \<and> channel_update example_env \<lparr>category_name = ''Elden Ring'', title = ''Now''\<rparr> 10000000 c1 w1
           = (Returned, c2, w1)
       \<and> game_tracked c2 = ''Elden Ring'')"
  using bot_game_change_echo_is_silent
    [of "''Dota 2''" "''Elden Ring''" example_component
        "\<lparr>category_name = ''Elden Ring'', title = ''Now''\<rparr>" "''er''" example_env
        "\<lparr>game_id = ''512953'', game_name = ''Elden Ring''\<rparr>" "[]" 1000000 10000000 example_world]
  by (auto simp: example_env_def example_component_def game_keywords_get_def lower_def)

section \<open>The tracked game and title after an event\<close>

text \<open>
  Claim C3. Handling a channel update event ends with the tracked game and title set to
  the event's: the two writes stand under no test, so every run of the handler that
  returns has made them, with or without an announcement or a write to the history;
  the handler returns whenever the chat and the pool do not raise, and when the event
  carries the tracked game and title it calls neither and returns in any case.
\<close>

theorem channel_update_overwrites_tracked:
  "(\<not> chat_fault ev \<and> \<not> pool_fault ev \<longrightarrow>
      (\<exists>w'. channel_update ev update now c w =
         (Returned, c\<lparr>game_tracked := category_name update, title_tracked := title update\<rparr>, w')))
   \<and> (\<forall>c' w'. channel_update ev update now c w = (Returned, c', w') \<longrightarrow>
         game_tracked c' = category_name update \<and> title_tracked c' = title update)
   \<and> (game_tracked c = category_name update \<and> title_tracked c = title update \<longrightarrow>
         channel_update ev update now c w = (Returned, c, w))"
  by (auto simp: channel_update_def collab_defs split: if_splits sum.splits)

theorem channel_update_overwrites_tracked_witness:
  "\<not> chat_fault example_env \<and> \<not> pool_fault example_env
   \<and> (\<exists>w'. channel_update example_env \<lparr>category_name = ''Elden Ring'', title = ''Chatting''\<rparr>
              5000 example_component example_world =
            (Returned, example_component\<lparr>game_tracked := ''Elden Ring'', title_tracked := ''Chatting''\<rparr>, w'))"
proof -
  have up: "\<not> chat_fault example_env \<and> \<not> pool_fault example_env"
    by (simp add: example_env_def)
  have "category_name \<lparr>category_name = ''Elden Ring'', title = ''Chatting''\<rparr> = ''Elden Ring''"
    and "title \<lparr>category_name = ''Elden Ring'', title = ''Chatting''\<rparr> = ''Chatting''"
    by simp_all
  with up channel_update_overwrites_tracked
    [of example_env "\<lparr>category_name = ''Elden Ring'', title = ''Chatting''\<rparr>" 5000
        example_component example_world]
  show ?thesis by metis
qed

section \<open>The title history\<close>

lemma upsert_titles:
  "map fst (upsert t e rows) = (if t \<in> set (map fst rows) then map fst rows else map fst rows @ [t])"
  by (induction rows) force+

lemma upsert_distinct: "distinct (map fst rows) \<Longrightarrow> distinct (map fst (upsert t e rows))"
  by (simp add: upsert_titles)

lemma upsert_row: "distinct (map fst rows) \<Longrightarrow> filter (\<lambda>r. fst r = t) (upsert t e rows) = [(t, e)]"
proof (induction rows)
  case Nil
  then show ?case by simp
next
  case (Cons r rows)
  show ?case
  proof (cases "fst r = t")
    case True
    with Cons.prems have "\<forall>x \<in> set rows. fst x \<noteq> t" by (auto simp: image_iff)
    then have "filter (\<lambda>r. fst r = t) rows = []" by (simp add: filter_empty_conv)
    with True show ?thesis by (cases r) simp
  next
    case False
    with Cons show ?thesis by (cases r) simp
  qed
qed

lemma upsert_others: "filter (\<lambda>r. fst r \<noteq> t) (upsert t e rows) = filter (\<lambda>r. fst r \<noteq> t) rows"
  by (induction rows) auto

text \<open>
  Claim C4. An event whose title is not the tracked one writes that title to the history
  with the handler's clock value as edit time, whatever the two time tests say (chat and
  pool up). The write is an upsert on the title: on a table with unique titles, writing
  the same title with \<open>e1\<close> and then with \<open>e2\<close> leaves one row for it, with edit time
  \<open>e2\<close>, the later of the two when the clock has advanced, and leaves the other rows
  and the uniqueness of the titles as they were.
\<close>

theorem title_change_is_upserted:
  "(title_tracked c \<noteq> title update \<and> \<not> chat_fault ev \<and> \<not> pool_fault ev \<longrightarrow>
      (\<exists>c' w'. channel_update ev update now c w = (Returned, c', w')
           \<and> ttv_stream_titles w' = upsert (title update) now (ttv_stream_titles w)))
   \<and> (distinct (map fst rows) \<longrightarrow>
        filter (\<lambda>r. fst r = t) (upsert t e2 (upsert t e1 rows)) = [(t, e2)]
      \<and> filter (\<lambda>r. fst r \<noteq> t) (upsert t e2 (upsert t e1 rows)) = filter (\<lambda>r. fst r \<noteq> t) rows
      \<and> distinct (map fst (upsert t e2 (upsert t e1 rows)))
      \<and> (e1 < e2 \<longrightarrow> snd ` {r \<in> set (upsert t e2 (upsert t e1 rows)). fst r = t} = {max e1 e2}))"
proof -
  have a: "title_tracked c \<noteq> title update \<and> \<not> chat_fault ev \<and> \<not> pool_fault ev \<longrightarrow>
      (\<exists>c' w'. channel_update ev update now c w = (Returned, c', w')
           \<and> ttv_stream_titles w' = upsert (title update) now (ttv_stream_titles w))"
    by (auto simp: channel_update_def collab_defs)
  have b: "filter (\<lambda>r. fst r = t) (upsert t e2 (upsert t e1 rows)) = [(t, e2)]"
    if "distinct (map fst rows)"
    using that by (simp add: upsert_row upsert_distinct)
  have c: "filter (\<lambda>r. fst r \<noteq> t) (upsert t e2 (upsert t e1 rows)) = filter (\<lambda>r. fst r \<noteq> t) rows"
    by (simp add: upsert_others)
  have d: "distinct (map fst (upsert t e2 (upsert t e1 rows)))" if "distinct (map fst rows)"
    using that by (simp add: upsert_distinct)
  have e: "snd ` {r \<in> set (upsert t e2 (upsert t e1 rows)). fst r = t} = {max e1 e2}"
    if "distinct (map fst rows)" "e1 < e2"
  proof -
    have "{r \<in> set (upsert t e2 (upsert t e1 rows)). fst r = t}
        = set (filter (\<lambda>r. fst r = t) (upsert t e2 (upsert t e1 rows)))" by auto
    also have "\<dots> = {(t, e2)}" using b[OF that(1)] by simp
    finally show ?thesis using that(2) by simp
  qed
  show ?thesis using a b c d e by blast
qed

theorem title_change_is_upserted_witness:
  "title_tracked example_component \<noteq> ''Chatting''
   \<and> \<not> chat_fault example_env \<and> \<not> pool_fault example_env
   \<and> (\<exists>c' w'. channel_update example_env \<lparr>category_name = ''Dota 2'', title = ''Chatting''\<rparr>
              5000 example_component example_world = (Returned, c', w')
         \<and> ttv_stream_titles w' =
             [(''Chatting'', 5000), (''Dota 2 grind'', 1000), (''Elden Ring Hype'', 3000), (''Now'', 4000)])
   \<and> distinct (map fst (ttv_stream_titles example_world))
   \<and> filter (\<lambda>r. fst r = ''Later'')
         (upsert ''Later'' 7000 (upsert ''Later'' 6000 (ttv_stream_titles example_world)))
       = [(''Later'', 7000)]
   \<and> (6000 :: int) < 7000"
proof -
  let ?u = "\<lparr>category_name = ''Dota 2'', title = ''Chatting''\<rparr>"
  have h1: "title_tracked example_component \<noteq> ''Chatting''"
    by (simp add: example_component_def)
  then have h1': "title_tracked example_component \<noteq> title ?u" by simp
  have h2: "\<not> chat_fault example_env" and h3: "\<not> pool_fault example_env"
    by (simp_all add: example_env_def)
  have h4: "distinct (map fst (ttv_stream_titles example_world))"
    by (simp add: example_world_def)
  have h5: "(6000 :: int) < 7000" by simp
  note t = title_change_is_upserted
    [of example_component ?u example_env 5000 example_world
        "ttv_stream_titles example_world" "''Later''" 7000 6000]
  from t h1' h2 h3 obtain c' w' where
    r: "channel_update example_env ?u 5000 example_component example_world = (Returned, c', w')"
    and "ttv_stream_titles w' = upsert (title ?u) 5000 (ttv_stream_titles example_world)"
    by blast
  then have rows: "ttv_stream_titles w' =
      [(''Chatting'', 5000), (''Dota 2 grind'', 1000), (''Elden Ring Hype'', 3000), (''Now'', 4000)]"
    by (simp add: example_world_def)
  from r rows have ex: "\<exists>c' w'. channel_update example_env ?u 5000 example_component example_world
       = (Returned, c', w')
     \<and> ttv_stream_titles w' =
         [(''Chatting'', 5000), (''Dota 2 grind'', 1000), (''Elden Ring Hype'', 3000), (''Now'', 4000)]"
    by blast
  from t h4 have f: "filter (\<lambda>r. fst r = ''Later'')
         (upsert ''Later'' 7000 (upsert ''Later'' 6000 (ttv_stream_titles example_world)))
       = [(''Later'', 7000)]" by blast
  from h1 h2 h3 ex h4 f h5 show ?thesis by blast
qed

section \<open>Restoring a title from the history\<close>












section \<open>Stamping before the platform is called\<close>

text \<open>
  Claim C6. Every change of the game or the title by the bot writes the matching time
  before it calls \<open>modify_channel\<close>: \<open>update_title\<close> leaves the title time at now
  whether the call raises or not, and when the call raises, the title commands and the
  two setting branches of \<open>game\<close> end with the error, the time at now, and the channel
  and the chat as they were; nothing puts the old time back.
\<close>

theorem stamp_precedes_modify:
  "update_title ev t now c w =
     (if modify_fault ev then (Raised ModifyFailed, c\<lparr>title_updated_dt := now\<rparr>, w)
      else (Returned, c\<lparr>title_updated_dt := now\<rparr>, w\<lparr>channel_title := t\<rparr>))
   \<and> (modify_fault ev \<and> t \<noteq> [] \<longrightarrow>
        title_group ev True t now c w = (Raised ModifyFailed, c\<lparr>title_updated_dt := now\<rparr>, w))
   \<and> (modify_fault ev \<longrightarrow>
        title_set ev t now c w = (Raised ModifyFailed, c\<lparr>title_updated_dt := now\<rparr>, w))
   \<and> (modify_fault ev \<and> \<not> pool_fault ev \<and> 0 \<le> k \<and> k \<le> 9223372036854775807
        \<and> select_title k (ttv_stream_titles w) = Some t \<longrightarrow>
        title_restore ev k now c w = (Raised ModifyFailed, c\<lparr>title_updated_dt := now\<rparr>, w))
   \<and> (modify_fault ev \<and> lower name = ''clear'' \<longrightarrow>
        game ev True (Some name) now c w = (Raised ModifyFailed, c\<lparr>game_updated_dt := now\<rparr>, w))
   \<and> (modify_fault ev \<and> name \<noteq> [] \<and> lower name \<noteq> ''clear'' \<and> \<not> fetch_games_fault ev
        \<and> games_named ev [game_keywords_get name] = g # gs \<longrightarrow>
        game ev True (Some name) now c w =
          (Raised ModifyFailed, c\<lparr>game_updated_dt := now\<rparr>,
           w\<lparr>fetch_games_calls := fetch_games_calls w @ [[game_keywords_get name]]\<rparr>))"
proof -
  have "lower name = ''clear'' \<Longrightarrow> name \<noteq> []" by (auto simp: lower_def)
  then show ?thesis
    by (auto simp: update_title_eq title_group_def title_set_def title_restore_def game_def
          collab_defs Let_def)
qed

theorem stamp_precedes_modify_witness:
  "modify_fault (example_env\<lparr>modify_fault := True\<rparr>)
   \<and> ''New title'' \<noteq> [] \<and> lower ''clear'' = ''clear''
   \<and> \<not> pool_fault (example_env\<lparr>modify_fault := True\<rparr>) \<and> (0 :: int) \<le> 1
   \<and> (1 :: int) \<le> 9223372036854775807
   \<and> select_title 1 (ttv_stream_titles example_world) = Some ''Elden Ring Hype''
   \<and> ''dota'' \<noteq> [] \<and> lower ''dota'' \<noteq> ''clear''
   \<and> \<not> fetch_games_fault (example_env\<lparr>modify_fault := True\<rparr>)
   \<and> games_named (example_env\<lparr>modify_fault := True\<rparr>) [game_keywords_get ''dota''] =
        [\<lparr>game_id = ''29595'', game_name = ''Dota 2''\<rparr>]
   \<and> update_title (example_env\<lparr>modify_fault := True\<rparr>) ''New title'' 5000 example_component example_world
       = (Raised ModifyFailed, example_component\<lparr>title_updated_dt := 5000\<rparr>, example_world)
   \<and> title_group (example_env\<lparr>modify_fault := True\<rparr>) True ''New title'' 5000 example_component example_world
       = (Raised ModifyFailed, example_component\<lparr>title_updated_dt := 5000\<rparr>, example_world)
   \<and> title_restore (example_env\<lparr>modify_fault := True\<rparr>) 1 5000 example_component example_world
       = (Raised ModifyFailed, example_component\<lparr>title_updated_dt := 5000\<rparr>, example_world)
   \<and> game (example_env\<lparr>modify_fault := True\<rparr>) True (Some ''clear'') 5000 example_component example_world
       = (Raised ModifyFailed, example_component\<lparr>game_updated_dt := 5000\<rparr>, example_world)
   \<and> game (example_env\<lparr>modify_fault := True\<rparr>) True (Some ''dota'') 5000 example_component example_world
       = (Raised ModifyFailed, example_component\<lparr>game_updated_dt := 5000\<rparr>,
          example_world\<lparr>fetch_games_calls := fetch_games_calls example_world @ [[''Dota 2'']]\<rparr>)"
proof -
  let ?E = "example_env\<lparr>modify_fault := True\<rparr>"
  let ?g = "\<lparr>game_id = ''29595'', game_name = ''Dota 2''\<rparr>"
  have h1: "modify_fault ?E" by simp
  have h2: "''New title'' \<noteq> []" and h3: "''dota'' \<noteq> []" and h4: "(0 :: int) \<le> 1"
    and h11: "(1 :: int) \<le> 9223372036854775807" by simp_all
  have h5: "lower ''clear'' = ''clear''" by (simp add: lower_def lower_char_clear)
  have h6: "lower ''dota'' \<noteq> ''clear''" by (simp add: lower_def)
  have h7: "\<not> pool_fault ?E" and h8: "\<not> fetch_games_fault ?E" by (simp_all add: example_env_def)
  have h9: "select_title 1 (ttv_stream_titles example_world) = Some ''Elden Ring Hype''"
    by (simp add: select_title_def order_by_edit_time_desc_def example_world_def)
  have k: "game_keywords_get ''dota'' = ''Dota 2''" by (simp add: game_keywords_get_def)
  have h10: "games_named ?E [game_keywords_get ''dota''] = [?g]"
    by (simp add: k example_env_def)
  note t1 = stamp_precedes_modify
    [of ?E "''New title''" 5000 example_component example_world 1 "''clear''" ?g "[]"]
  note t2 = stamp_precedes_modify
    [of ?E "''Elden Ring Hype''" 5000 example_component example_world 1 "''dota''" ?g "[]"]
  from t1 h1 have a: "update_title ?E ''New title'' 5000 example_component example_world
       = (Raised ModifyFailed, example_component\<lparr>title_updated_dt := 5000\<rparr>, example_world)"
    by metis
  from t1 h1 h2 have b: "title_group ?E True ''New title'' 5000 example_component example_world
       = (Raised ModifyFailed, example_component\<lparr>title_updated_dt := 5000\<rparr>, example_world)"
    by blast
  from t2 h1 h4 h11 h7 h9 have c: "title_restore ?E 1 5000 example_component example_world
       = (Raised ModifyFailed, example_component\<lparr>title_updated_dt := 5000\<rparr>, example_world)"
    by blast
  from t1 h1 h5 have d: "game ?E True (Some ''clear'') 5000 example_component example_world
       = (Raised ModifyFailed, example_component\<lparr>game_updated_dt := 5000\<rparr>, example_world)"
    by blast
  from t2 h1 h3 h6 h8 h10 have "game ?E True (Some ''dota'') 5000 example_component example_world
       = (Raised ModifyFailed, example_component\<lparr>game_updated_dt := 5000\<rparr>,
          example_world\<lparr>fetch_games_calls :=
            fetch_games_calls example_world @ [[game_keywords_get ''dota'']]\<rparr>)"
    by blast
  then have e: "game ?E True (Some ''dota'') 5000 example_component example_world
       = (Raised ModifyFailed, example_component\<lparr>game_updated_dt := 5000\<rparr>,
          example_world\<lparr>fetch_games_calls := fetch_games_calls example_world @ [[''Dota 2'']]\<rparr>)"
    by (simp only: k)
  from h1 h2 h5 h7 h4 h11 h9 h3 h6 h8 h10 a b c d e show ?thesis by blast
qed

section \<open>Clearing the game\<close>

text \<open>
  Claim C7. A moderator's \<open>game clear\<close>, with platform and chat up, returns with the game
  time at now, the channel's category id at \<open>0\<close> and the confirmation in the chat; the
  list of searches is as before, so the search is not called, and whether it would raise
  or what it would find (which the environment leaves open) has no part in the result.
\<close>

theorem game_clear_needs_no_search:
  assumes "\<not> modify_fault ev" and "\<not> chat_fault ev"
  shows "game ev True (Some ''clear'') now c w =
           (Returned, c\<lparr>game_updated_dt := now\<rparr>,
            w\<lparr>channel_game_id := ''0'',
              chat := chat w @ [CtxSend (''Set game to \"No game category\" '' @ STV_uuh ev)]\<rparr>)
       \<and> fetch_games_calls (snd (snd (game ev True (Some ''clear'') now c w))) = fetch_games_calls w"
  using assms by (simp add: game_def collab_defs Let_def lower_def lower_char_def)

theorem game_clear_needs_no_search_witness:
  "\<not> modify_fault (example_env\<lparr>fetch_games_fault := True\<rparr>)
   \<and> \<not> chat_fault (example_env\<lparr>fetch_games_fault := True\<rparr>)
   \<and> fetch_games_fault (example_env\<lparr>fetch_games_fault := True\<rparr>)
   \<and> game (example_env\<lparr>fetch_games_fault := True\<rparr>) True (Some ''clear'') 5000
         example_component example_world =
       (Returned, example_component\<lparr>game_updated_dt := 5000\<rparr>,
        example_world\<lparr>channel_game_id := ''0'',
          chat := [CtxSend ''Set game to \"No game category\" uuh'']\<rparr>)"
proof -
  let ?E = "example_env\<lparr>fetch_games_fault := True\<rparr>"
  have h1: "\<not> modify_fault ?E" and h2: "\<not> chat_fault ?E" and h3: "fetch_games_fault ?E"
    by (simp_all add: example_env_def)
  have emote: "STV_uuh ?E = ''uuh''" by (simp add: example_env_def)
  have quiet: "chat example_world = []" by (simp add: example_world_def)
  from game_clear_needs_no_search [OF h1 h2, of 5000 example_component example_world]
  have "game ?E True (Some ''clear'') 5000 example_component example_world =
       (Returned, example_component\<lparr>game_updated_dt := 5000\<rparr>,
        example_world\<lparr>channel_game_id := ''0'',
          chat := chat example_world @ [CtxSend (''Set game to \"No game category\" '' @ STV_uuh ?E)]\<rparr>)"
    by blast
  then have r: "game ?E True (Some ''clear'') 5000 example_component example_world =
       (Returned, example_component\<lparr>game_updated_dt := 5000\<rparr>,
        example_world\<lparr>channel_game_id := ''0'',
          chat := [CtxSend ''Set game to \"No game category\" uuh'']\<rparr>)"
    by (simp only: emote quiet append.simps)
  from h1 h2 h3 r show ?thesis by blast
qed

section \<open>Callers who are not moderators\<close>

text \<open>
  Claim C9. \<open>game\<close> and \<open>title\<close> with an argument, called by someone who is not a
  moderator, send the rejection and change nothing: the component is returned as it
  was, and the world differs by the one chat line only (channel, history and searches as
  before). When the chat itself raises, nothing at all has changed.
\<close>

theorem non_moderator_is_rejected:
  assumes "name \<noteq> []" and "t \<noteq> []"
  shows "game ev False (Some name) now c w =
           (if chat_fault ev then (Raised SendFailed, c, w)
            else (Returned, c,
                  w\<lparr>chat := chat w @
                     [CtxSend (''Only moderators are allowed to change game name '' @ FFZ_peepoPolice ev)]\<rparr>))
       \<and> title_group ev False t now c w =
           (if chat_fault ev then (Raised SendFailed, c, w)
            else (Returned, c,
                  w\<lparr>chat := chat w @
                     [CtxSend (''Only moderators are allowed to change title '' @ FFZ_peepoPolice ev)]\<rparr>))"
  using assms by (simp add: game_def title_group_def collab_defs)

theorem non_moderator_is_rejected_witness:
  "''dota'' \<noteq> [] \<and> ''New title'' \<noteq> []
   \<and> game example_env False (Some ''dota'') 5000 example_component example_world =
       (Returned, example_component,
        example_world\<lparr>chat := [CtxSend ''Only moderators are allowed to change game name peepoPolice'']\<rparr>)
   \<and> title_group example_env False ''New title'' 5000 example_component example_world =
       (Returned, example_component,
        example_world\<lparr>chat := [CtxSend ''Only moderators are allowed to change title peepoPolice'']\<rparr>)"
proof -
  have h1: "''dota'' \<noteq> []" and h2: "''New title'' \<noteq> []" by simp_all
  have up: "\<not> chat_fault example_env" and emote: "FFZ_peepoPolice example_env = ''peepoPolice''"
    by (simp_all add: example_env_def)
  have quiet: "chat example_world = []" by (simp add: example_world_def)
  note t = non_moderator_is_rejected [OF h1 h2, of example_env 5000 example_component example_world]
  from t up have "game example_env False (Some ''dota'') 5000 example_component example_world =
       (Returned, example_component,
        example_world\<lparr>chat := chat example_world @
          [CtxSend (''Only moderators are allowed to change game name '' @ FFZ_peepoPolice example_env)]\<rparr>)"
    by metis
  then have a: "game example_env False (Some ''dota'') 5000 example_component example_world =
       (Returned, example_component,
        example_world\<lparr>chat := [CtxSend ''Only moderators are allowed to change game name peepoPolice'']\<rparr>)"
    by (simp only: emote quiet append.simps)
  from t up have "title_group example_env False ''New title'' 5000 example_component example_world =
       (Returned, example_component,
        example_world\<lparr>chat := chat example_world @
          [CtxSend (''Only moderators are allowed to change title '' @ FFZ_peepoPolice example_env)]\<rparr>)"
    by metis
  then have b: "title_group example_env False ''New title'' 5000 example_component example_world =
       (Returned, example_component,
        example_world\<lparr>chat := [CtxSend ''Only moderators are allowed to change title peepoPolice'']\<rparr>)"
    by (simp only: emote quiet append.simps)
  from h1 h2 a b show ?thesis by blast
qed

section \<open>The reserved word and the synonyms\<close>

lemma lower_casings_of_clear:
  assumes "c1 \<in> {CHR ''c'', CHR ''C''}" "c2 \<in> {CHR ''l'', CHR ''L''}" "c3 \<in> {CHR ''e'', CHR ''E''}"
    "c4 \<in> {CHR ''a'', CHR ''A''}" "c5 \<in> {CHR ''r'', CHR ''R''}"
  shows "lower [c1, c2, c3, c4, c5] = ''clear''"
proof -
  have "lower_char c1 = CHR ''c''" using assms(1) lower_char_clear by blast
  moreover have "lower_char c2 = CHR ''l''" using assms(2) lower_char_clear by blast
  moreover have "lower_char c3 = CHR ''e''" using assms(3) lower_char_clear by blast
  moreover have "lower_char c4 = CHR ''a''" using assms(4) lower_char_clear by blast
  moreover have "lower_char c5 = CHR ''r''" using assms(5) lower_char_clear by blast
  ultimately show ?thesis unfolding lower_def by simp
qed

lemma game_search_branch:
  assumes "name \<noteq> []" "lower name \<noteq> ''clear''"
  shows "fetch_games_calls (snd (snd (game ev True (Some name) now c w)))
           = fetch_games_calls w @ [[game_keywords_get name]]"
  using assms
  by (auto simp: game_def collab_defs Let_def split: list.splits)

text \<open>
  Claim C10. In \<open>game\<close>, called by a moderator: every spelling of \<open>clear\<close> in upper and
  lower case letters takes the clearing branch (the time is stamped and the channel is
  set to category id \<open>0\<close>). The synonym table is looked up with the argument as typed:
  \<open>dota\<close> gives \<open>Dota 2\<close>, \<open>er\<close> gives \<open>Elden Ring\<close>, every other argument is kept,
  and the search is called with \<open>Dota\<close> for \<open>Dota\<close> and \<open>ER\<close> for \<open>ER\<close>, with
  \<open>Dota 2\<close> for \<open>dota\<close>.
\<close>

theorem clear_any_case_keywords_exact:
  "(c1 \<in> {CHR ''c'', CHR ''C''} \<and> c2 \<in> {CHR ''l'', CHR ''L''} \<and> c3 \<in> {CHR ''e'', CHR ''E''}
      \<and> c4 \<in> {CHR ''a'', CHR ''A''} \<and> c5 \<in> {CHR ''r'', CHR ''R''} \<longrightarrow>
      game ev True (Some [c1, c2, c3, c4, c5]) now c w =
        (case modify_channel_game_id ev ''0'' w of
           Inl e \<Rightarrow> (Raised e, c\<lparr>game_updated_dt := now\<rparr>, w)
         | Inr w1 \<Rightarrow>
             reply ev (''Set game to \"No game category\" '' @ STV_uuh ev) (c\<lparr>game_updated_dt := now\<rparr>) w1))
   \<and> game_keywords_get ''dota'' = ''Dota 2''
   \<and> game_keywords_get ''er'' = ''Elden Ring''
   \<and> (name \<noteq> ''dota'' \<and> name \<noteq> ''er'' \<longrightarrow> game_keywords_get name = name)
   \<and> fetch_games_calls (snd (snd (game ev True (Some ''Dota'') now c w))) = fetch_games_calls w @ [[''Dota'']]
   \<and> fetch_games_calls (snd (snd (game ev True (Some ''ER'') now c w))) = fetch_games_calls w @ [[''ER'']]
   \<and> fetch_games_calls (snd (snd (game ev True (Some ''dota'') now c w))) = fetch_games_calls w @ [[''Dota 2'']]"
proof -
  have a: "game ev True (Some [c1, c2, c3, c4, c5]) now c w =
        (case modify_channel_game_id ev ''0'' w of
           Inl e \<Rightarrow> (Raised e, c\<lparr>game_updated_dt := now\<rparr>, w)
         | Inr w1 \<Rightarrow>
             reply ev (''Set game to \"No game category\" '' @ STV_uuh ev) (c\<lparr>game_updated_dt := now\<rparr>) w1)"
    if "c1 \<in> {CHR ''c'', CHR ''C''}" "c2 \<in> {CHR ''l'', CHR ''L''}" "c3 \<in> {CHR ''e'', CHR ''E''}"
      "c4 \<in> {CHR ''a'', CHR ''A''}" "c5 \<in> {CHR ''r'', CHR ''R''}"
    using lower_casings_of_clear [OF that] by (simp add: game_def Let_def)
  have b: "game_keywords_get ''dota'' = ''Dota 2''" "game_keywords_get ''er'' = ''Elden Ring''"
    by (simp_all add: game_keywords_get_def)
  have c: "game_keywords_get name = name" if "name \<noteq> ''dota''" "name \<noteq> ''er''"
    using that by (simp add: game_keywords_get_def)
  have l: "lower ''Dota'' \<noteq> ''clear''" "lower ''ER'' \<noteq> ''clear''" "lower ''dota'' \<noteq> ''clear''"
    by (simp_all add: lower_def)
  have d: "fetch_games_calls (snd (snd (game ev True (Some ''Dota'') now c w))) = fetch_games_calls w @ [[''Dota'']]"
    using game_search_branch [OF _ l(1), of ev now c w] by (simp add: game_keywords_get_def)
  have e: "fetch_games_calls (snd (snd (game ev True (Some ''ER'') now c w))) = fetch_games_calls w @ [[''ER'']]"
    using game_search_branch [OF _ l(2), of ev now c w] by (simp add: game_keywords_get_def)
  have f: "fetch_games_calls (snd (snd (game ev True (Some ''dota'') now c w))) = fetch_games_calls w @ [[''Dota 2'']]"
    using game_search_branch [OF _ l(3), of ev now c w] by (simp add: game_keywords_get_def)
  show ?thesis using a b c d e f by blast
qed

theorem clear_any_case_keywords_exact_witness:
  "CHR ''C'' \<in> {CHR ''c'', CHR ''C''} \<and> CHR ''l'' \<in> {CHR ''l'', CHR ''L''}
   \<and> CHR ''E'' \<in> {CHR ''e'', CHR ''E''} \<and> CHR ''a'' \<in> {CHR ''a'', CHR ''A''}
   \<and> CHR ''R'' \<in> {CHR ''r'', CHR ''R''}
   \<and> ''Dota'' \<noteq> ''dota'' \<and> ''Dota'' \<noteq> ''er''
   \<and> game example_env True (Some ''ClEaR'') 5000 example_component example_world =
       (Returned, example_component\<lparr>game_updated_dt := 5000\<rparr>,
        example_world\<lparr>channel_game_id := ''0'',
          chat := [CtxSend ''Set game to \"No game category\" uuh'']\<rparr>)
   \<and> game_keywords_get ''Dota'' = ''Dota''"
proof -
  have m: "CHR ''C'' \<in> {CHR ''c'', CHR ''C''}" "CHR ''l'' \<in> {CHR ''l'', CHR ''L''}"
    "CHR ''E'' \<in> {CHR ''e'', CHR ''E''}" "CHR ''a'' \<in> {CHR ''a'', CHR ''A''}"
    "CHR ''R'' \<in> {CHR ''r'', CHR ''R''}"
    by simp_all
  have n: "''Dota'' \<noteq> ''dota''" "''Dota'' \<noteq> ''er''" by simp_all
  note t = clear_any_case_keywords_exact
    [of "CHR ''C''" "CHR ''l''" "CHR ''E''" "CHR ''a''" "CHR ''R''" example_env 5000
        example_component example_world "''Dota''"]
  from t m have "game example_env True (Some ''ClEaR'') 5000 example_component example_world =
        (case modify_channel_game_id example_env ''0'' example_world of
           Inl e \<Rightarrow> (Raised e, example_component\<lparr>game_updated_dt := 5000\<rparr>, example_world)
         | Inr w1 \<Rightarrow>
             reply example_env (''Set game to \"No game category\" '' @ STV_uuh example_env)
               (example_component\<lparr>game_updated_dt := 5000\<rparr>) w1)"
    by blast
  then have a: "game example_env True (Some ''ClEaR'') 5000 example_component example_world =
       (Returned, example_component\<lparr>game_updated_dt := 5000\<rparr>,
        example_world\<lparr>channel_game_id := ''0'',
          chat := [CtxSend ''Set game to \"No game category\" uuh'']\<rparr>)"
    by (simp add: collab_defs example_env_def example_world_def)
  from t n have b: "game_keywords_get ''Dota'' = ''Dota''" by blast
  from m n a b show ?thesis by blast
qed

section \<open>Pruning on stream-offline\<close>

text \<open>
  Claim C8. Handling a stream-offline notification, with the pool up, keeps exactly the
  rows of the title history whose edit time is not strictly before the cutoff, thirty
  days (2592000000000 microseconds) before now, and touches nothing else: a row with
  its edit time at the cutoff stays, and handling the notification a second time with
  the same clock value deletes nothing more.
\<close>

theorem clear_the_database_prunes:
  assumes "\<not> pool_fault ev"
  shows "let cutoff = now - 2592000000000;
             kept = filter (\<lambda>row. cutoff \<le> snd row) (ttv_stream_titles w);
             w' = w\<lparr>ttv_stream_titles := kept\<rparr>
         in clear_the_database ev now c w = (Returned, c, w')
          \<and> clear_the_database ev now c w' = (Returned, c, w')
          \<and> (\<forall>row \<in> set (ttv_stream_titles w). row \<in> set kept \<longleftrightarrow> \<not> snd row < cutoff)
          \<and> (\<forall>t. (t, cutoff) \<in> set (ttv_stream_titles w) \<longrightarrow> (t, cutoff) \<in> set kept)"
  using assms
  by (auto simp: clear_the_database_def pool_execute_delete_def delete_older_def
        timedelta_days_def Let_def not_less)

theorem clear_the_database_prunes_witness:
  "\<not> pool_fault example_env \<and>
   clear_the_database example_env 2592000002000 example_component example_world =
     (Returned, example_component,
      example_world\<lparr>ttv_stream_titles :=
        [(''Chatting'', 2000), (''Elden Ring Hype'', 3000), (''Now'', 4000)]\<rparr>)"
  using clear_the_database_prunes [of example_env 2592000002000 example_world example_component]
  by (simp add: example_env_def example_world_def Let_def)

end
